theory Spec2Isabelle
  imports Main
begin

section \<open>The webwire client: connection establishment and the reader thread\<close>

text \<open>
  This theory embeds \<^verbatim>\<open>client/connect.go\<close> of the vendored webwire-go client.
  The method \<^verbatim>\<open>(*Client).connect\<close> is a function from the client's fields to the
  returned error, the updated fields and the trace of the calls it makes on its
  collaborators. The reader goroutine it starts is a second function, run on the sequence
  of results that \<^verbatim>\<open>conn.Read()\<close> delivers. The goroutine that the reader starts
  after a read error is a third one.

  The model is sequential: \<^verbatim>\<open>connectLock\<close> and \<^verbatim>\<open>sessionLock\<close> are taken
  and released around the accesses shown and are not represented, and an atomic load or
  store of \<^verbatim>\<open>status\<close> is a plain read or write of the field.
\<close>

subsection \<open>Data\<close>

text \<open>
  Modelled from the spec: the constants \<^verbatim>\<open>StatDisabled\<close>, \<^verbatim>\<open>StatDisconnected\<close>
  and \<^verbatim>\<open>StatConnected\<close> that \<^verbatim>\<open>connect.go\<close> compares \<^verbatim>\<open>clt.status\<close> with are
  declared in a file that is not part of the sources. The data model of the specification
  gives the connection state as the enumeration Disabled, Disconnected, Connecting,
  Connected; the constructors keep the names the source uses, and \<open>StatConnecting\<close> is
  the one state that \<^verbatim>\<open>connect.go\<close> never names.
\<close>

datatype status = StatDisabled | StatDisconnected | StatConnecting | StatConnected

text \<open>
  A Go \<^verbatim>\<open>error\<close> value; \<^verbatim>\<open>nil\<close> is \<open>None\<close> of \<open>error option\<close>. The constructors
  are the kinds of failure that the specification distinguishes, each with its message.
\<close>

datatype error =
    IncompatibleProtocol string
  | DialError string
  | SessionRestorationFailed string
  | Timeout
  | OtherError string

text \<open>
  The error of \<^verbatim>\<open>conn.Read()\<close>, which answers \<^verbatim>\<open>IsAbnormalCloseErr()\<close>.
\<close>

datatype sockReadErr = SockReadErr (IsAbnormalCloseErr: bool) (readErrMsg: string)

text \<open>
  A session. \<^verbatim>\<open>connect.go\<close> reads its field \<^verbatim>\<open>Key\<close> only; the second field is
  the opaque metadata of the specification's data model.
\<close>

record session =
  Key :: string
  metadata :: string

text \<open>
  The fields of \<^verbatim>\<open>Client\<close> that \<^verbatim>\<open>connect.go\<close> reads or writes. The record is
  extensible: every function below is defined on \<open>'a client_scheme\<close>, so it applies to a
  client with any further fields and leaves them as they are.
\<close>

record client =
  status :: status
  session :: "session option"
  autoconnect :: bool
  serverAddr :: string

text \<open>What the two loggers are given.\<close>

datatype logMessage =
    AbnormalClosureError sockReadErr
  | AutoReconnectFailed error
  | FailedHandlingMessage error
  | CouldntRestoreSession error

text \<open>
  The observable actions, in the order they happen: calls on the connection and on the
  client's other methods, log lines, hooks and goroutines started. The last two hooks are
  not called in \<^verbatim>\<open>connect.go\<close>; a message handler reports them.
\<close>

datatype event =
    EvVerifyProtocolVersion
  | EvDial string
  | EvSpawnReader
  | EvRequestSessionRestoration string
  | EvWarningLog logMessage
  | EvErrorLog logMessage
  | EvOnDisconnected
  | EvSpawnReconnect
  | EvTryAutoconnect int
  | EvClose
  | EvOnSessionClosed
  | EvOnNotification string

text \<open>
  The methods that \<^verbatim>\<open>connect.go\<close> calls and whose bodies are in other files are
  parameters of the model. \<open>verifyProtocolVersion\<close>, \<open>Dial\<close> and
  \<open>requestSessionRestoration\<close> report their result only; \<open>handleMessage\<close>,
  \<open>tryAutoconnect\<close> and \<open>closeClient\<close> (the method \<^verbatim>\<open>close\<close>) may also change the
  client. \<open>'m\<close> is the type of a message read from the connection.
\<close>

record ('m, 'a) externals =
  verifyProtocolVersion :: "'a client_scheme \<Rightarrow> error option"
  Dial :: "string \<Rightarrow> error option"
  requestSessionRestoration :: "'a client_scheme \<Rightarrow> string \<Rightarrow> error + session option"
  handleMessage :: "'m \<Rightarrow> 'a client_scheme \<Rightarrow> error option \<times> 'a client_scheme \<times> event list"
  tryAutoconnect :: "int \<Rightarrow> 'a client_scheme \<Rightarrow> error option \<times> 'a client_scheme"
  closeClient :: "'a client_scheme \<Rightarrow> 'a client_scheme"

subsection \<open>connect\<close>

text \<open>
  \<^verbatim>\<open>func (clt *Client) connect() error\<close>. The result is the returned error, the
  client after the call and the actions taken. The reader goroutine is started after the
  dial and before the status is stored; it is recorded as \<open>EvSpawnReader\<close> and runs as
  \<open>readLoop\<close> below.
\<close>

definition connect ::
  "('m, 'a) externals \<Rightarrow> 'a client_scheme \<Rightarrow> error option \<times> 'a client_scheme \<times> event list"
where
  "connect ext clt =
    (if status clt = StatConnected then (None, clt, [])
     else case verifyProtocolVersion ext clt of
       Some err \<Rightarrow> (Some err, clt, [EvVerifyProtocolVersion])
     | None \<Rightarrow>
        (case Dial ext (serverAddr clt) of
           Some err \<Rightarrow> (Some err, clt, [EvVerifyProtocolVersion, EvDial (serverAddr clt)])
         | None \<Rightarrow>
            (let evs = [EvVerifyProtocolVersion, EvDial (serverAddr clt), EvSpawnReader];
                 clt1 = clt\<lparr>status := StatConnected\<rparr>
             in case session clt1 of
                  None \<Rightarrow> (None, clt1, evs)
                | Some s \<Rightarrow>
                   (case requestSessionRestoration ext clt1 (Key s) of
                      Inl err \<Rightarrow>
                        (None, clt1\<lparr>session := None\<rparr>,
                         evs @ [EvRequestSessionRestoration (Key s),
                                EvWarningLog (CouldntRestoreSession err)])
                    | Inr restoredSession \<Rightarrow>
                        (None, clt1\<lparr>session := restoredSession\<rparr>,
                         evs @ [EvRequestSessionRestoration (Key s)])))))"

subsection \<open>The reader goroutine\<close>

text \<open>
  The branch \<^verbatim>\<open>if err != nil\<close> of the reader, up to its \<^verbatim>\<open>return\<close>: the error
  log line for an abnormal closure, the status change, the hook, and the start of the
  reconnecting goroutine.
\<close>

definition onReadError :: "sockReadErr \<Rightarrow> 'a client_scheme \<Rightarrow> 'a client_scheme \<times> event list" where
  "onReadError err clt =
    ((if status clt = StatConnected then clt\<lparr>status := StatDisconnected\<rparr> else clt),
     (if IsAbnormalCloseErr err then [EvErrorLog (AbnormalClosureError err)] else [])
       @ [EvOnDisconnected, EvSpawnReconnect])"

text \<open>
  The body of the goroutine started by the reader after a read error. It reads
  \<^verbatim>\<open>autoconnect\<close> and \<^verbatim>\<open>status\<close> when it runs, on the client as it is then.
\<close>

definition reconnectTask ::
  "('m, 'a) externals \<Rightarrow> 'a client_scheme \<Rightarrow> 'a client_scheme \<times> event list"
where
  "reconnectTask ext clt =
    (if autoconnect clt \<and> status clt \<noteq> StatDisabled then
       (case tryAutoconnect ext 0 clt of
          (Some err, clt') \<Rightarrow> (clt', [EvTryAutoconnect 0, EvErrorLog (AutoReconnectFailed err)])
        | (None, clt') \<Rightarrow> (clt', [EvTryAutoconnect 0]))
     else (clt, []))"

text \<open>
  The reader has either returned, or it is waiting in \<^verbatim>\<open>conn.Read()\<close> for a
  message that has not come yet.
\<close>

datatype 'c readerState = Exited 'c "event list" | Blocked 'c "event list"

fun readerClient :: "'c readerState \<Rightarrow> 'c" where
  "readerClient (Exited c evs) = c"
| "readerClient (Blocked c evs) = c"

fun readerEvents :: "'c readerState \<Rightarrow> event list" where
  "readerEvents (Exited c evs) = evs"
| "readerEvents (Blocked c evs) = evs"

fun after :: "event list \<Rightarrow> 'c readerState \<Rightarrow> 'c readerState" where
  "after pre (Exited c evs) = Exited c (pre @ evs)"
| "after pre (Blocked c evs) = Blocked c (pre @ evs)"

text \<open>
  The loop \<^verbatim>\<open>for { message, err := clt.conn.Read() ... }\<close> on the results that
  \<^verbatim>\<open>Read\<close> delivers, oldest first: \<open>Inl\<close> an error, \<open>Inr\<close> a message. The only way
  out of the loop is the \<^verbatim>\<open>return\<close> of the error branch, after which the deferred
  \<^verbatim>\<open>clt.close()\<close> runs. When the results are used up the reader is waiting.
\<close>

fun readLoop ::
  "('m, 'a) externals \<Rightarrow> (sockReadErr + 'm) list \<Rightarrow> 'a client_scheme \<Rightarrow> 'a client_scheme readerState"
where
  "readLoop ext [] clt = Blocked clt []"
| "readLoop ext (Inl err # rest) clt =
    (case onReadError err clt of
       (clt', evs) \<Rightarrow> Exited (closeClient ext clt') (evs @ [EvClose]))"
| "readLoop ext (Inr message # rest) clt =
    (case handleMessage ext message clt of
       (None, clt', evs) \<Rightarrow> after evs (readLoop ext rest clt')
     | (Some err, clt', evs) \<Rightarrow>
         after (evs @ [EvWarningLog (FailedHandlingMessage err)]) (readLoop ext rest clt'))"

text \<open>
  The statuses that \<^verbatim>\<open>connect.go\<close> names: the ones it compares \<^verbatim>\<open>clt.status\<close>
  with and the ones it stores. A client of this code has one of them.
\<close>

fun codeStatus :: "status \<Rightarrow> bool" where
  "codeStatus StatDisabled = True"
| "codeStatus StatDisconnected = True"
| "codeStatus StatConnected = True"
| "codeStatus StatConnecting = False"

section \<open>Message dispatch, the session store and the request tracker\<close>

text \<open>
  \<^verbatim>\<open>handleMessage\<close>, the session accessors and \<^verbatim>\<open>Request\<close> are called by
  \<^verbatim>\<open>connect.go\<close> and by the test \<^verbatim>\<open>TestClientOnSessionClosed\<close>, and their bodies are
  not part of the sources. The definitions of this section follow the design description
  of the specification instead, and are used only where a property is about them.
\<close>

text \<open>
  Modelled from the spec: the type of a message delivered by the transport, the tagged
  union Reply(id, payload), Notification(payload), SessionClosedSignal, ErrorSignal of the
  data model. Its declaration is not part of the sources.
\<close>

datatype message =
    Reply nat string
  | Notification string
  | SessionClosedSignal
  | ErrorSignal

text \<open>
  Modelled from the spec: the fields of the Request Tracker, which are declared outside
  the sources. A pending request is an identifier with its deadline; \<open>delivered\<close> is the
  result handed to the caller waiting for that identifier (none while the caller is
  suspended); \<open>written\<close> holds the requests written to the transport, \<open>reqTimeout\<close> is the
  configured timeout and \<open>clock\<close> the current time.
\<close>

record trackedClient = client +
  clock :: nat
  reqTimeout :: nat
  nextId :: nat
  pending :: "nat \<rightharpoonup> nat"
  delivered :: "nat \<rightharpoonup> error + string"
  written :: "(nat \<times> string \<times> string) list"

text \<open>
  Modelled from the spec: the Session Store operations \<^verbatim>\<open>establish(key, metadata)\<close>,
  \<^verbatim>\<open>clear()\<close> and \<^verbatim>\<open>snapshot()\<close>, whose code is not part of the sources. They act
  on the field \<^verbatim>\<open>session\<close> that \<^verbatim>\<open>connect.go\<close> reads and resets.
\<close>

definition establish :: "string \<Rightarrow> string \<Rightarrow> 'a client_scheme \<Rightarrow> 'a client_scheme" where
  "establish k m clt = clt\<lparr>session := Some \<lparr>Key = k, metadata = m\<rparr>\<rparr>"

definition clear :: "'a client_scheme \<Rightarrow> 'a client_scheme" where
  "clear clt = clt\<lparr>session := None\<rparr>"

definition snapshot :: "'a client_scheme \<Rightarrow> session option" where
  "snapshot clt = session clt"

text \<open>
  Modelled from the spec: \<^verbatim>\<open>complete(id, payload_or_error)\<close> of the Request Tracker,
  whose code is not part of the sources. It looks the pending entry up and removes it,
  delivering the result; when the entry is absent the call does nothing.
\<close>

definition complete ::
  "nat \<Rightarrow> error + string \<Rightarrow> 'a trackedClient_scheme \<Rightarrow> 'a trackedClient_scheme"
where
  "complete i r clt =
    (case pending clt i of
       None \<Rightarrow> clt
     | Some d \<Rightarrow> clt\<lparr>pending := (pending clt)(i := None), delivered := (delivered clt)(i \<mapsto> r)\<rparr>)"

text \<open>
  Modelled from the spec: \<^verbatim>\<open>send\<close> of the Request Tracker up to the point where the
  caller is suspended (its code is not part of the sources): a fresh identifier, a pending
  entry whose deadline is the configured timeout from now, and the request written to the
  transport. \<^verbatim>\<open>request(name, payload)\<close> is this followed by waiting for
  \<open>delivered\<close> at the identifier.
\<close>

definition send ::
  "string \<Rightarrow> string \<Rightarrow> 'a trackedClient_scheme \<Rightarrow> nat \<times> 'a trackedClient_scheme"
where
  "send name payload clt =
    (nextId clt,
     clt\<lparr>nextId := Suc (nextId clt),
         pending := (pending clt)(nextId clt \<mapsto> clock clt + reqTimeout clt),
         written := written clt @ [(nextId clt, name, payload)]\<rparr>)"

text \<open>
  Modelled from the spec: the per-request timer of the Request Tracker (its code is not
  part of the sources). When it runs at or after the deadline it completes the entry with
  the Timeout error; it cannot run earlier, and it does nothing once the entry is gone.
\<close>

definition timerFires :: "nat \<Rightarrow> 'a trackedClient_scheme \<Rightarrow> 'a trackedClient_scheme" where
  "timerFires i clt =
    (case pending clt i of
       None \<Rightarrow> clt
     | Some d \<Rightarrow> if d \<le> clock clt then complete i (Inl Timeout) clt else clt)"

text \<open>
  Modelled from the spec: the dispatch step of the read loop, the method
  \<^verbatim>\<open>handleMessage\<close> whose code is not part of the sources. A reply goes to the Request
  Tracker, a session-closed signal clears the Session Store and invokes the hook, a
  notification goes to the user callback. The specification names no action for an error
  signal.
\<close>

fun dispatch ::
  "message \<Rightarrow> 'a trackedClient_scheme \<Rightarrow> error option \<times> 'a trackedClient_scheme \<times> event list"
where
  "dispatch (Reply i payload) clt = (None, complete i (Inr payload) clt, [])"
| "dispatch (Notification payload) clt = (None, clt, [EvOnNotification payload])"
| "dispatch SessionClosedSignal clt = (None, clear clt, [EvOnSessionClosed])"
| "dispatch ErrorSignal clt = (None, clt, [])"

text \<open>
  What can happen to a client that is connected, in the order it happens: time passes, the
  reader handles a message, the timer of a request runs, a caller sends a request.
\<close>

datatype happening =
    Elapse nat
  | Receive message
  | TimerFires nat
  | Send string string

fun step :: "happening \<Rightarrow> 'a trackedClient_scheme \<Rightarrow> 'a trackedClient_scheme" where
  "step (Elapse d) clt = clt\<lparr>clock := clock clt + d\<rparr>"
| "step (Receive m) clt = fst (snd (dispatch m clt))"
| "step (TimerFires i) clt = timerFires i clt"
| "step (Send name payload) clt = snd (send name payload clt)"

fun run :: "happening list \<Rightarrow> 'a trackedClient_scheme \<Rightarrow> 'a trackedClient_scheme" where
  "run [] clt = clt"
| "run (h # hs) clt = run hs (step h clt)"

text \<open>The time that passes in a sequence of happenings.\<close>

fun elapsed :: "happening list \<Rightarrow> nat" where
  "elapsed [] = 0"
| "elapsed (Elapse d # hs) = d + elapsed hs"
| "elapsed (h # hs) = elapsed hs"

subsection \<open>A client and its collaborators for worked examples\<close>

text \<open>
  A disconnected client that holds a session, with the two-unit request timeout of the
  test, and collaborators whose verdicts are given: the result of the protocol check, of
  the dial and of the session restoration. Messages are handled by \<open>dispatch\<close>.
\<close>

definition exampleClient :: trackedClient where
  "exampleClient =
    \<lparr>status = StatDisconnected,
     session = Some \<lparr>Key = ''k1'', metadata = ''''\<rparr>,
     autoconnect = True,
     serverAddr = ''localhost:8080'',
     clock = 0, reqTimeout = 2, nextId = 0,
     pending = Map.empty, delivered = Map.empty, written = []\<rparr>"

definition exampleExternals ::
  "error option \<Rightarrow> error option \<Rightarrow> error + session option
    \<Rightarrow> (message, unit trackedClient_ext) externals"
where
  "exampleExternals v d r =
    \<lparr>verifyProtocolVersion = (\<lambda>clt. v),
     Dial = (\<lambda>addr. d),
     requestSessionRestoration = (\<lambda>clt k. r),
     handleMessage = dispatch,
     tryAutoconnect = (\<lambda>n clt. (None, clt)),
     closeClient = (\<lambda>clt. clt)\<rparr>"

section \<open>Properties of connect\<close>

text \<open>
  C5. A client whose status is Connected: \<open>connect\<close> returns no error at once. The
  client is unchanged and the trace is empty, so the protocol is not verified, nothing is
  dialled and no reader is started.
\<close>

theorem connect_connected_idempotent:
  "status clt = StatConnected \<Longrightarrow> connect ext clt = (None, clt, [])"
  by (simp add: connect_def)

theorem connect_connected_idempotent_witness:
  "connect (exampleExternals (Some (IncompatibleProtocol ''v2'')) None (Inr None))
        (exampleClient\<lparr>status := StatConnected\<rparr>)
      = (None, exampleClient\<lparr>status := StatConnected\<rparr>, [])"
proof -
  have h: "status (exampleClient\<lparr>status := StatConnected\<rparr>) = StatConnected" by simp
  show ?thesis by (rule connect_connected_idempotent [OF h])
qed

text \<open>
  C1. A client that is not yet connected and holds a session, with the protocol check and
  the dial succeeding and the restoration request failing: \<open>connect\<close> returns no error,
  the status is Connected, the stored session is none, and the last action is the warning
  log line that carries the restoration error.
\<close>

theorem connect_restoration_failure_nonfatal:
  assumes "status clt \<noteq> StatConnected"
    and "verifyProtocolVersion ext clt = None"
    and "Dial ext (serverAddr clt) = None"
    and "session clt = Some s"
    and "requestSessionRestoration ext (clt\<lparr>status := StatConnected\<rparr>) (Key s) = Inl err"
  shows "connect ext clt =
    (None, clt\<lparr>status := StatConnected, session := None\<rparr>,
     [EvVerifyProtocolVersion, EvDial (serverAddr clt), EvSpawnReader,
      EvRequestSessionRestoration (Key s), EvWarningLog (CouldntRestoreSession err)])"
  using assms by (simp add: connect_def)

theorem connect_restoration_failure_nonfatal_witness:
  "connect (exampleExternals None None (Inl (SessionRestorationFailed ''unknown key''))) exampleClient =
    (None, exampleClient\<lparr>status := StatConnected, session := None\<rparr>,
     [EvVerifyProtocolVersion, EvDial ''localhost:8080'', EvSpawnReader,
      EvRequestSessionRestoration ''k1'',
      EvWarningLog (CouldntRestoreSession (SessionRestorationFailed ''unknown key''))])"
proof -
  let ?ext = "exampleExternals None None (Inl (SessionRestorationFailed ''unknown key''))"
  let ?s = "\<lparr>Key = ''k1'', metadata = ''''\<rparr>"
  have h1: "status exampleClient \<noteq> StatConnected" by (simp add: exampleClient_def)
  have h2: "verifyProtocolVersion ?ext exampleClient = None" by (simp add: exampleExternals_def)
  have h3: "Dial ?ext (serverAddr exampleClient) = None" by (simp add: exampleExternals_def)
  have h4: "session exampleClient = Some ?s" by (simp add: exampleClient_def)
  have h5: "requestSessionRestoration ?ext (exampleClient\<lparr>status := StatConnected\<rparr>) (Key ?s)
              = Inl (SessionRestorationFailed ''unknown key'')"
    by (simp add: exampleExternals_def)
  have a: "serverAddr exampleClient = ''localhost:8080''" by (simp add: exampleClient_def)
  from connect_restoration_failure_nonfatal [OF h1 h2 h3 h4 h5] a show ?thesis by simp
qed

text \<open>
  C3. A client that is not yet connected. The first action of \<open>connect\<close> is the protocol
  check, so a dial comes after it. When the check fails, its error is what \<open>connect\<close>
  returns, the transport is not dialled and the client is unchanged; when the check passes
  and the dial fails, the dial's error is what \<open>connect\<close> returns and the client is
  unchanged. Whenever an error is returned the status is not Connected afterwards.
\<close>

theorem connect_failure_synchronous:
  assumes "status clt \<noteq> StatConnected"
  shows "(\<exists>rest. snd (snd (connect ext clt)) = EvVerifyProtocolVersion # rest)
    \<and> (verifyProtocolVersion ext clt = Some err \<longrightarrow>
          connect ext clt = (Some err, clt, [EvVerifyProtocolVersion]))
    \<and> (verifyProtocolVersion ext clt = None \<and> Dial ext (serverAddr clt) = Some err \<longrightarrow>
          connect ext clt = (Some err, clt, [EvVerifyProtocolVersion, EvDial (serverAddr clt)]))
    \<and> (fst (connect ext clt) \<noteq> None \<longrightarrow> status (fst (snd (connect ext clt))) \<noteq> StatConnected)"
  using assms by (auto simp add: connect_def Let_def split: option.splits sum.splits)

theorem connect_failure_synchronous_witness:
  "connect (exampleExternals (Some (IncompatibleProtocol ''v2'')) None (Inr None)) exampleClient
      = (Some (IncompatibleProtocol ''v2''), exampleClient, [EvVerifyProtocolVersion])
   \<and> connect (exampleExternals None (Some (DialError ''refused'')) (Inr None)) exampleClient
      = (Some (DialError ''refused''), exampleClient,
         [EvVerifyProtocolVersion, EvDial (serverAddr exampleClient)])"
proof -
  let ?e1 = "exampleExternals (Some (IncompatibleProtocol ''v2'')) None (Inr None)"
  let ?e2 = "exampleExternals None (Some (DialError ''refused'')) (Inr None)"
  have h: "status exampleClient \<noteq> StatConnected" by (simp add: exampleClient_def)
  have v1: "verifyProtocolVersion ?e1 exampleClient = Some (IncompatibleProtocol ''v2'')"
    by (simp add: exampleExternals_def)
  have v2: "verifyProtocolVersion ?e2 exampleClient = None
              \<and> Dial ?e2 (serverAddr exampleClient) = Some (DialError ''refused'')"
    by (simp add: exampleExternals_def)
  from connect_failure_synchronous [OF h, of ?e1 "IncompatibleProtocol ''v2''"] v1
  have c1: "connect ?e1 exampleClient
      = (Some (IncompatibleProtocol ''v2''), exampleClient, [EvVerifyProtocolVersion])"
    by blast
  from connect_failure_synchronous [OF h, of ?e2 "DialError ''refused''"] v2
  have c2: "connect ?e2 exampleClient
      = (Some (DialError ''refused''), exampleClient,
         [EvVerifyProtocolVersion, EvDial (serverAddr exampleClient)])"
    by blast
  from c1 c2 show ?thesis by simp
qed

text \<open>
  C6. A client that is not yet connected, with the protocol check and the dial
  succeeding: a restoration request is among the actions of \<open>connect\<close> exactly when the
  client holds a session. When it holds none, \<open>connect\<close> returns no error, the status is
  Connected and the actions are the check, the dial and the start of the reader.
\<close>

theorem connect_restores_iff_session:
  assumes "status clt \<noteq> StatConnected"
    and "verifyProtocolVersion ext clt = None"
    and "Dial ext (serverAddr clt) = None"
  shows "((\<exists>k. EvRequestSessionRestoration k \<in> set (snd (snd (connect ext clt))))
            \<longleftrightarrow> session clt \<noteq> None)
    \<and> (session clt = None \<longrightarrow>
          connect ext clt =
            (None, clt\<lparr>status := StatConnected\<rparr>,
             [EvVerifyProtocolVersion, EvDial (serverAddr clt), EvSpawnReader]))"
  using assms by (auto simp add: connect_def Let_def split: option.splits sum.splits)

theorem connect_restores_iff_session_witness:
  "connect (exampleExternals None None (Inl (SessionRestorationFailed ''unknown key'')))
      (exampleClient\<lparr>session := None\<rparr>)
    = (None, exampleClient\<lparr>session := None, status := StatConnected\<rparr>,
       [EvVerifyProtocolVersion, EvDial (serverAddr (exampleClient\<lparr>session := None\<rparr>)),
        EvSpawnReader])"
proof -
  let ?ext = "exampleExternals None None (Inl (SessionRestorationFailed ''unknown key''))"
  let ?clt = "exampleClient\<lparr>session := None\<rparr>"
  have h1: "status ?clt \<noteq> StatConnected" by (simp add: exampleClient_def)
  have h2: "verifyProtocolVersion ?ext ?clt = None" by (simp add: exampleExternals_def)
  have h3: "Dial ?ext (serverAddr ?clt) = None" by (simp add: exampleExternals_def)
  have h4: "session ?clt = None" by simp
  from connect_restores_iff_session [OF h1 h2 h3] h4 show ?thesis by blast
qed

text \<open>
  C9. Whenever \<open>connect\<close> returns an error, the client after the call is the client
  before it, so the status and the session are as they were; the reader has not been
  started, and the error is that of the protocol check or, the check having passed, that
  of the dial. The collaborators are taken to report their result without writing to the
  client's fields.
\<close>

theorem connect_error_atomic:
  assumes "connect ext clt = (Some err, clt', evs)"
  shows "clt' = clt \<and> status clt' = status clt \<and> session clt' = session clt
    \<and> EvSpawnReader \<notin> set evs
    \<and> (verifyProtocolVersion ext clt = Some err
        \<or> (verifyProtocolVersion ext clt = None \<and> Dial ext (serverAddr clt) = Some err))"
  using assms by (auto simp add: connect_def Let_def split: if_splits option.splits sum.splits)

theorem connect_error_atomic_witness:
  "connect (exampleExternals None (Some (DialError ''refused'')) (Inr None)) exampleClient
     = (Some (DialError ''refused''), exampleClient,
        [EvVerifyProtocolVersion, EvDial ''localhost:8080''])
   \<and> status exampleClient = StatDisconnected
   \<and> session exampleClient = Some \<lparr>Key = ''k1'', metadata = ''''\<rparr>
   \<and> EvSpawnReader \<notin> set [EvVerifyProtocolVersion, EvDial ''localhost:8080'']"
proof -
  let ?ext = "exampleExternals None (Some (DialError ''refused'')) (Inr None)"
  have h: "connect ?ext exampleClient
     = (Some (DialError ''refused''), exampleClient,
        [EvVerifyProtocolVersion, EvDial ''localhost:8080''])"
    by (simp add: connect_def exampleExternals_def exampleClient_def)
  have s: "status exampleClient = StatDisconnected
    \<and> session exampleClient = Some \<lparr>Key = ''k1'', metadata = ''''\<rparr>"
    by (simp add: exampleClient_def)
  from connect_error_atomic [OF h] h s show ?thesis by blast
qed

section \<open>Properties of the reader goroutine\<close>

text \<open>
  The status after the error branch of the reader: Disconnected when it was Connected,
  and otherwise what it was.
\<close>

lemma onReadError_status:
  "status (fst (onReadError err clt)) =
     (if status clt = StatConnected then StatDisconnected else status clt)"
  by (simp add: onReadError_def)

lemma onReadError_autoconnect: "autoconnect (fst (onReadError err clt)) = autoconnect clt"
  by (simp add: onReadError_def)

lemma onReadError_hook: "EvOnDisconnected \<in> set (snd (onReadError err clt))"
  by (simp add: onReadError_def)

lemma after_Exited:
  "after pre r = Exited c evs \<longleftrightarrow> (\<exists>evs'. r = Exited c evs' \<and> evs = pre @ evs')"
  by (cases r) auto

lemma readerEvents_after: "readerEvents (after pre r) = pre @ readerEvents r"
  by (cases r) auto

lemma readerClient_after: "readerClient (after pre r) = readerClient r"
  by (cases r) auto

text \<open>The reader returns exactly when \<^verbatim>\<open>conn.Read()\<close> has delivered an error.\<close>

lemma readLoop_exits_iff:
  "(\<exists>c evs. readLoop ext rs clt = Exited c evs) \<longleftrightarrow> (\<exists>r \<in> set rs. isl r)"
proof (induction rs arbitrary: clt)
  case Nil
  then show ?case by simp
next
  case (Cons r rs)
  show ?case
  proof (cases r)
    case (Inl err)
    then show ?thesis by (auto split: prod.splits)
  next
    case (Inr m)
    obtain eo clt' hevs where h: "handleMessage ext m clt = (eo, clt', hevs)"
      by (cases "handleMessage ext m clt") auto
    have "(\<exists>c evs. readLoop ext (r # rs) clt = Exited c evs)
            \<longleftrightarrow> (\<exists>c evs. readLoop ext rs clt' = Exited c evs)"
      using Inr h by (cases eo) (auto simp add: after_Exited)
    with Cons.IH [of clt'] Inr show ?thesis by simp
  qed
qed

text \<open>A reader that has returned has called the hook, whatever it handled before.\<close>

lemma readLoop_Exited_hook:
  "readLoop ext rs clt = Exited c evs \<Longrightarrow> EvOnDisconnected \<in> set evs"
proof (induction rs arbitrary: clt evs)
  case Nil
  then show ?case by simp
next
  case (Cons r rs)
  show ?case
  proof (cases r)
    case (Inl err)
    with Cons.prems show ?thesis
      by (auto simp add: onReadError_def split: prod.splits)
  next
    case (Inr m)
    obtain eo clt' hevs where h: "handleMessage ext m clt = (eo, clt', hevs)"
      by (cases "handleMessage ext m clt") auto
    from Cons.prems Inr h
    have "\<exists>evs'. readLoop ext rs clt' = Exited c evs' \<and> set evs' \<subseteq> set evs"
      by (cases eo) (auto simp add: after_Exited)
    with Cons.IH show ?thesis by blast
  qed
qed

text \<open>
  \<open>connect\<close> and the reader's error branch store Connected and Disconnected only, so a
  client that has one of the statuses of \<^verbatim>\<open>connect.go\<close> keeps having one.
\<close>

lemma connect_codeStatus:
  "codeStatus (status clt) \<Longrightarrow> codeStatus (status (fst (snd (connect ext clt))))"
  by (auto simp add: connect_def Let_def split: option.splits sum.splits)

lemma onReadError_codeStatus:
  "codeStatus (status clt) \<Longrightarrow> codeStatus (status (fst (onReadError err clt)))"
  by (simp add: onReadError_def)





text \<open>
  C10. Every return of the reader has called the \<open>OnDisconnected\<close> hook, and the error
  branch calls it once, with no condition. On a client whose status is Disabled the error
  branch changes nothing, so the status does not become Disconnected, the hook is still
  among the reader's actions, and the goroutine started afterwards does not reconnect.
\<close>

theorem onDisconnected_on_every_exit:
  "(readLoop ext rs clt = Exited c evs \<longrightarrow> EvOnDisconnected \<in> set evs)
   \<and> count_list (snd (onReadError err clt)) EvOnDisconnected = 1
   \<and> (status clt = StatDisabled \<longrightarrow>
        fst (onReadError err clt) = clt
        \<and> status (fst (onReadError err clt)) \<noteq> StatDisconnected
        \<and> EvOnDisconnected \<in> set (readerEvents (readLoop ext (Inl err # rest) clt))
        \<and> snd (reconnectTask ext (fst (onReadError err clt))) = [])"
  using readLoop_Exited_hook [of ext rs clt c evs]
  by (auto simp add: reconnectTask_def onReadError_def split: prod.splits option.splits)

theorem onDisconnected_on_every_exit_witness:
  "EvOnDisconnected \<in> set [EvOnNotification ''n'', EvOnDisconnected, EvSpawnReconnect, EvClose]
   \<and> fst (onReadError (SockReadErr False ''closed'') (exampleClient\<lparr>status := StatDisabled\<rparr>))
       = exampleClient\<lparr>status := StatDisabled\<rparr>
   \<and> EvOnDisconnected \<in> set (readerEvents (readLoop (exampleExternals None None (Inr None))
        (Inl (SockReadErr False ''closed'') # []) (exampleClient\<lparr>status := StatDisabled\<rparr>)))
   \<and> snd (reconnectTask (exampleExternals None None (Inr None))
        (fst (onReadError (SockReadErr False ''closed'') (exampleClient\<lparr>status := StatDisabled\<rparr>))))
       = []"
proof -
  let ?ext = "exampleExternals None None (Inr None)"
  let ?err = "SockReadErr False ''closed''"
  let ?clt = "exampleClient\<lparr>status := StatDisabled\<rparr>"
  let ?evs = "[EvOnNotification ''n'', EvOnDisconnected, EvSpawnReconnect, EvClose]"
  have d: "status ?clt = StatDisabled" by simp
  have r: "readLoop ?ext [Inr (Notification ''n''), Inl ?err] ?clt = Exited ?clt ?evs"
    by (simp add: exampleExternals_def onReadError_def)
  from onDisconnected_on_every_exit
         [of ?ext "[Inr (Notification ''n''), Inl ?err]" ?clt ?clt ?evs ?err "[]"] d r
  show ?thesis by blast
qed

section \<open>Properties of the dispatch and of the request tracker\<close>

lemma dispatch_no_error: "fst (dispatch m clt) = None"
  by (cases m) auto

lemma dispatch_hook_count:
  "count_list (snd (snd (dispatch m clt))) EvOnSessionClosed
     = (if m = SessionClosedSignal then 1 else 0)"
  by (cases m) auto

text \<open>
  While the reader handles messages with \<open>dispatch\<close>, the hook has been called as many
  times as session-closed signals have been read.
\<close>

lemma readLoop_dispatch_hook_count:
  "handleMessage ext = dispatch \<Longrightarrow>
   count_list (readerEvents (readLoop ext (map Inr ms) clt)) EvOnSessionClosed
     = count_list ms SessionClosedSignal"
proof (induction ms arbitrary: clt)
  case Nil
  then show ?case by simp
next
  case (Cons m ms)
  obtain clt' hevs where d: "dispatch m clt = (None, clt', hevs)"
    using dispatch_no_error [of m clt] by (cases "dispatch m clt") auto
  have "count_list hevs EvOnSessionClosed = (if m = SessionClosedSignal then 1 else 0)"
    using dispatch_hook_count [of m clt] d by simp
  with Cons d show ?case
    by (simp add: readerEvents_after)
qed

lemma readLoop_dispatch_last_closed:
  "handleMessage ext = dispatch \<Longrightarrow>
   session (readerClient (readLoop ext (map Inr (ms @ [SessionClosedSignal])) clt)) = None"
proof (induction ms arbitrary: clt)
  case Nil
  then show ?case by (simp add: clear_def)
next
  case (Cons m ms)
  obtain clt' hevs where d: "dispatch m clt = (None, clt', hevs)"
    using dispatch_no_error [of m clt] by (cases "dispatch m clt") auto
  with Cons show ?case
    by (simp add: readerClient_after)
qed

text \<open>
  C7. The reader handles messages with \<open>dispatch\<close>, and the server's session-closed
  signal arrives after messages none of which is such a signal. When the reader has
  handled it, the \<open>OnSessionClosed\<close> hook has been called exactly once, and a snapshot
  of the session store gives none.
\<close>

theorem sessionClosed_hook_once:
  assumes "handleMessage ext = dispatch"
    and "SessionClosedSignal \<notin> set earlier"
  shows "count_list (readerEvents (readLoop ext (map Inr (earlier @ [SessionClosedSignal])) clt))
           EvOnSessionClosed = 1
    \<and> snapshot (readerClient (readLoop ext (map Inr (earlier @ [SessionClosedSignal])) clt)) = None"
  using assms readLoop_dispatch_hook_count [of ext "earlier @ [SessionClosedSignal]" clt]
    readLoop_dispatch_last_closed [of ext earlier clt]
  by (simp add: snapshot_def)

theorem sessionClosed_hook_once_witness:
  "count_list (readerEvents (readLoop (exampleExternals None None (Inr None))
        (map Inr ([Reply 0 ''ok''] @ [SessionClosedSignal]))
        (establish ''k2'' ''user'' (exampleClient\<lparr>status := StatConnected\<rparr>))))
           EvOnSessionClosed = 1
   \<and> snapshot (readerClient (readLoop (exampleExternals None None (Inr None))
        (map Inr ([Reply 0 ''ok''] @ [SessionClosedSignal]))
        (establish ''k2'' ''user'' (exampleClient\<lparr>status := StatConnected\<rparr>)))) = None"
proof -
  have h: "handleMessage (exampleExternals None None (Inr None)) = dispatch"
    by (simp add: exampleExternals_def)
  have n: "SessionClosedSignal \<notin> set [Reply 0 ''ok'']" by simp
  show ?thesis by (rule sessionClosed_hook_once [OF h n])
qed

lemma run_append: "run (xs @ ys) clt = run ys (run xs clt)"
  by (induction xs arbitrary: clt) auto

lemma elapsed_Cons: "elapsed (h # hs) = elapsed [h] + elapsed hs"
  by (cases h) auto

lemma step_clock: "clock (step h clt) = clock clt + elapsed [h]"
proof (cases h)
  case (Receive m)
  then show ?thesis by (cases m) (auto simp add: complete_def clear_def split: option.splits)
qed (auto simp add: timerFires_def complete_def send_def split: option.splits)

text \<open>
  A request stays pending while its deadline has not come and no reply to it is handled:
  its timer cannot complete it, and other requests get other identifiers.
\<close>

lemma step_keeps_pending:
  assumes "pending clt i = Some d" and "i < nextId clt" and "clock clt < d"
    and "\<forall>q. h \<noteq> Receive (Reply i q)"
  shows "pending (step h clt) i = Some d \<and> i < nextId (step h clt)"
proof (cases h)
  case (Elapse e)
  with assms show ?thesis by simp
next
  case (Receive m)
  with assms show ?thesis
    by (cases m) (auto simp add: complete_def clear_def split: option.splits)
next
  case (TimerFires j)
  with assms show ?thesis
    by (auto simp add: timerFires_def complete_def split: option.splits)
next
  case (Send name payload)
  with assms show ?thesis by (auto simp add: send_def)
qed

lemma run_keeps_pending:
  assumes "pending clt i = Some d" and "i < nextId clt" and "clock clt + elapsed hs < d"
    and "\<forall>q. Receive (Reply i q) \<notin> set hs"
  shows "pending (run hs clt) i = Some d \<and> i < nextId (run hs clt)"
  using assms
proof (induction hs arbitrary: clt)
  case Nil
  then show ?case by simp
next
  case (Cons h hs)
  have e: "elapsed (h # hs) = elapsed [h] + elapsed hs" by (rule elapsed_Cons)
  have "pending (step h clt) i = Some d \<and> i < nextId (step h clt)"
    using Cons.prems e by (intro step_keeps_pending) auto
  moreover have "clock (step h clt) + elapsed hs < d"
    using Cons.prems e by (simp add: step_clock)
  ultimately show ?case using Cons.IH [of "step h clt"] Cons.prems by simp
qed

text \<open>A result that has been delivered is not replaced: completion happens once.\<close>

lemma step_keeps_delivered:
  assumes "pending clt i = None" and "i < nextId clt" and "delivered clt i = Some r"
  shows "pending (step h clt) i = None \<and> i < nextId (step h clt)
    \<and> delivered (step h clt) i = Some r"
proof (cases h)
  case (Elapse e)
  with assms show ?thesis by simp
next
  case (Receive m)
  with assms show ?thesis
    by (cases m) (auto simp add: complete_def clear_def split: option.splits)
next
  case (TimerFires j)
  with assms show ?thesis
    by (auto simp add: timerFires_def complete_def split: option.splits)
next
  case (Send name payload)
  with assms show ?thesis by (auto simp add: send_def)
qed

lemma run_keeps_delivered:
  assumes "pending clt i = None" and "i < nextId clt" and "delivered clt i = Some r"
  shows "delivered (run hs clt) i = Some r"
  using assms
proof (induction hs arbitrary: clt)
  case Nil
  then show ?case by simp
next
  case (Cons h hs)
  from step_keeps_delivered [OF Cons.prems, of h] Cons.IH [of "step h clt"]
  show ?case by simp
qed

text \<open>
  C8. A request is sent and gets the identifier \<open>i\<close>. Less time than the configured
  timeout passes, with no reply to \<open>i\<close>, before the reader handles the server's reply to
  \<open>i\<close>. Then the result delivered to the caller is the payload of that reply and not an
  error, whatever happens later, the request's timer included. This holds for every
  client, so for a connected one, and for every request name and payload, so for
  "login" with "credentials".
\<close>

theorem request_reply_within_timeout:
  assumes "send name payload clt = (i, clt1)"
    and "elapsed earlier < reqTimeout clt"
    and "\<forall>q. Receive (Reply i q) \<notin> set earlier"
  shows "delivered (run (earlier @ Receive (Reply i reply) # later) clt1) i = Some (Inr reply)"
proof -
  let ?d = "clock clt + reqTimeout clt"
  from assms(1) have p1: "pending clt1 i = Some ?d" and n1: "i < nextId clt1"
    and c1: "clock clt1 = clock clt"
    by (auto simp add: send_def)
  let ?c2 = "run earlier clt1"
  have "pending ?c2 i = Some ?d \<and> i < nextId ?c2"
    using p1 n1 c1 assms(2,3) by (intro run_keeps_pending) auto
  then have "pending (step (Receive (Reply i reply)) ?c2) i = None"
    and "i < nextId (step (Receive (Reply i reply)) ?c2)"
    and "delivered (step (Receive (Reply i reply)) ?c2) i = Some (Inr reply)"
    by (auto simp add: complete_def)
  then have "delivered (run later (step (Receive (Reply i reply)) ?c2)) i = Some (Inr reply)"
    by (rule run_keeps_delivered)
  then show ?thesis by (simp add: run_append)
qed

theorem request_reply_within_timeout_witness:
  "delivered (run ([Elapse 1] @ Receive (Reply 0 ''ok'') # [Elapse 5, TimerFires 0])
        (snd (send ''login'' ''credentials'' (exampleClient\<lparr>status := StatConnected\<rparr>)))) 0
      = Some (Inr ''ok'')"
proof -
  let ?clt = "exampleClient\<lparr>status := StatConnected\<rparr>"
  have s: "send ''login'' ''credentials'' ?clt = (0, snd (send ''login'' ''credentials'' ?clt))"
    by (simp add: send_def exampleClient_def)
  have e: "elapsed [Elapse 1] < reqTimeout ?clt"
    by (simp add: exampleClient_def)
  have r: "\<forall>q. Receive (Reply 0 q) \<notin> set [Elapse 1]" by simp
  show ?thesis by (rule request_reply_within_timeout [OF s e r])
qed

end
